theory Spec2Isabelle
  imports Complex_Main
begin

section \<open>Strings, lengths and colours\<close>

text \<open>
  A Python \<open>str\<close> is modelled by the list of bytes of its UTF-8 encoding (type
  \<open>string\<close>). The program only concatenates strings, joins them and tests them for
  emptiness; all three commute with UTF-8 encoding. The characters outside ASCII that
  occur in \<open>build_cv.py\<close> are named here.
\<close>

definition middot :: string where
  "middot = [CHR 0xC2, CHR 0xB7]"

definition emdash :: string where
  "emdash = [CHR 0xE2, CHR 0x80, CHR 0x94]"

definition endash :: string where
  "endash = [CHR 0xE2, CHR 0x80, CHR 0x93]"

definition bullet_sign :: string where
  "bullet_sign = [CHR 0xE2, CHR 0x80, CHR 0xA2]"

definition times_sign :: string where
  "times_sign = [CHR 0xC3, CHR 0x97]"

definition copyright_sign :: string where
  "copyright_sign = [CHR 0xC2, CHR 0xA9]"

text \<open>\<open>sep.join(parts)\<close> of Python.\<close>

fun str_join :: "string \<Rightarrow> string list \<Rightarrow> string" where
  "str_join sep [] = []"
| "str_join sep [x] = x"
| "str_join sep (x # y # ys) = x @ sep @ str_join sep (y # ys)"

text \<open>
  Lengths are in points, as exact rationals; \<open>reportlab.lib.units.mm\<close> is
  \<open>72 / 25.4\<close>. No claim depends on the rounding of the program's floats.
\<close>

definition mm :: rat where
  "mm = 360 / 127"

definition A4 :: "rat \<times> rat" where
  "A4 = (210 * mm, 297 * mm)"

datatype color = HexColor string | grey

section \<open>Configuration constants\<close>

definition LANDING_URL :: string where
  "LANDING_URL = ''https://apschram.github.io/curriculum-vitae/''"

definition PDF_URL :: string where
  "PDF_URL = ''https://apschram.github.io/curriculum-vitae/Alexander_Schram_CV.pdf''"

definition LINKEDIN_URL :: string where
  "LINKEDIN_URL = ''https://www.linkedin.com/in/alexander-schram-17ab6265/''"

definition GITHUB_URL :: string where
  "GITHUB_URL = ''https://github.com/apschram/curriculum-vitae''"

definition OUTPUT_PDF :: string where
  "OUTPUT_PDF = ''Alexander_Schram_CV.pdf''"

definition ACCENT :: color where
  "ACCENT = HexColor ''#0B7A75''"

definition BASE_FONT :: string where
  "BASE_FONT = ''Helvetica''"

definition BOLD_FONT :: string where
  "BOLD_FONT = ''Helvetica-Bold''"

definition HEADSHOT_PATH :: "string option" where
  "HEADSHOT_PATH = None"

section \<open>The CV content\<close>

text \<open>
  \<open>DATA\<close> is a dict. A key that may be missing is an \<open>option\<close> field: \<open>None\<close> is
  the missing key. The links dict is the list of its items in insertion order.
\<close>

record job =
  company :: "string option"
  role :: "string option"
  dates :: "string option"
  bullets :: "string list option"

record cv_content =
  name :: "string option"
  title :: "string option"
  location :: "string option"
  email :: "string option"
  phone :: "string option"
  summary :: "string option"
  experience :: "job list option"
  tech :: "string option"
  providers :: "string option"
  education :: "string list option"
  languages :: "string option"
  links :: "(string \<times> string) list option"

definition DATA :: cv_content where
  "DATA = \<lparr>
    name = Some ''Alexander Pieter Schram'',
    title = Some (''Sports Analytics '' @ middot @ '' Tracking & Modeling''),
    location = Some ''Amsterdam, NL'',
    email = Some ''apschram@gmail.com'',
    phone = Some ''+31 6 52 36 73 57'',
    summary = Some (
      ''Sports data leader focused on tracking analytics, model design, and delivery. '' @
      ''Built end-to-end pipelines and coach-facing tools; values reproducibility and measurable impact.''),
    experience = Some [
      \<lparr>company = Some ''PFF'',
       role = Some ''Sr. Manager Team Services & Analysis'',
       dates = Some (''2021'' @ endash @ ''present''),
       bullets = Some [
         ''Led analytics delivery for pro clubs across recruitment and performance.'',
         ''Built tracking'' @ times_sign @ ''event fusion workflows and physical metrics reporting.'',
         ''Improved comms through concise visuals and field-relevant language.'']\<rparr>,
      \<lparr>company = Some ''FC Cincinnati'',
       role = Some ''Director of Analytics & Strategy'',
       dates = Some (''2019'' @ endash @ ''2021''),
       bullets = Some [
         ''Built the analytics function across player evaluation and match analysis.'',
         ''Delivered coach-facing products and recruitment decision support.'']\<rparr>,
      \<lparr>company = Some ''remiqz'',
       role = Some ''Manager Data Science & Lead Developer'',
       dates = Some (''2017'' @ endash @ ''2019''),
       bullets = Some [
         ''Led data science projects and productized analytics pipelines.'']\<rparr>,
      \<lparr>company = Some ''Hypercube'',
       role = Some ''Consultant'',
       dates = Some (''2014'' @ endash @ ''2017''),
       bullets = Some [
         ''Delivered modeling and analysis for sports/business problems.'']\<rparr>,
      \<lparr>company = Some ''Veneficus'',
       role = Some ''Data Intern'',
       dates = Some ''2013'',
       bullets = Some [
         ''Supported data preparation and early-stage modeling.'']\<rparr>,
      \<lparr>company = Some ''University of Amsterdam'',
       role = Some ''Research Assistant'',
       dates = Some (''2011'' @ endash @ ''2013''),
       bullets = Some [
         ''Quantitative research support and analysis.'']\<rparr>],
    tech = Some (
      ''Python (pandas, scikit-learn, xgboost), SQL, R, Matplotlib, Shiny, Kalman filters, '' @
      ''ETL, model validation/MAER, experiment design''),
    providers = Some (
      ''Event: PFF, StatsBomb, Wyscout, Opta, InStat '' @ middot @ '' '' @
      ''Tracking: Second Spectrum, ChyronHego, SkillCorner, Sportlogiq '' @ middot @ '' '' @
      ''GPS: STATSports, Catapult''),
    education = Some [
      ''MSc Econometrics: Free Track '' @ emdash @ '' University of Amsterdam (2014)'',
      ''BSc Econometrics & Operations Research '' @ emdash @ '' University of Amsterdam (2013)''],
    languages = Some ''Dutch (native), English (C2)'',
    links = Some [
      (''PDF'', PDF_URL),
      (''LinkedIn'', LINKEDIN_URL),
      (''GitHub'', GITHUB_URL)]
  \<rparr>"

section \<open>Dictionary access\<close>

datatype py_error = KeyError string

text \<open>\<open>d[k]\<close>: raises \<open>KeyError\<close> on a missing key.\<close>

definition getitem :: "string \<Rightarrow> 'a option \<Rightarrow> py_error + 'a" where
  "getitem k v = (case v of None \<Rightarrow> Inl (KeyError k) | Some x \<Rightarrow> Inr x)"

text \<open>\<open>if d.get(k):\<close> for a string value: the key is there and the string is not empty.\<close>

definition truthy :: "string option \<Rightarrow> bool" where
  "truthy v = (case v of None \<Rightarrow> False | Some s \<Rightarrow> s \<noteq> [])"

text \<open>Sequencing of two steps of which the first may raise.\<close>

definition and_then :: "py_error + 'a \<Rightarrow> ('a \<Rightarrow> py_error + 'b) \<Rightarrow> py_error + 'b" where
  "and_then r k = (case r of Inl err \<Rightarrow> Inl err | Inr v \<Rightarrow> k v)"

section \<open>Layout blocks\<close>

text \<open>
  The values handed to the layout library. A paragraph carries its text (with the
  library's inline markup) and the name of its style; a table carries its rows of
  cells, its column widths (\<open>None\<close> is Python's \<open>None\<close>) and the style commands set
  on it.
\<close>

datatype style_name = NameLine | SubLine | H2Accent | BodyMain | BulletItem | SmallNote

datatype style_attr =
    fontName string
  | fontSize rat
  | leading rat
  | spaceBefore rat
  | spaceAfter rat
  | textColor color
  | leftIndent rat
  | bulletIndent rat

text \<open>The six \<open>styles.add(ParagraphStyle(name=..., ...))\<close> calls of \<open>build_pdf\<close>.\<close>

fun ParagraphStyle :: "style_name \<Rightarrow> style_attr list" where
  "ParagraphStyle NameLine = [fontName BOLD_FONT, fontSize 20, leading 23]"
| "ParagraphStyle SubLine = [fontName BASE_FONT, fontSize 11, leading 14, textColor grey]"
| "ParagraphStyle H2Accent =
     [fontName BOLD_FONT, fontSize (25 / 2), leading 16, spaceBefore 8, spaceAfter 4,
      textColor ACCENT]"
| "ParagraphStyle BodyMain = [fontName BASE_FONT, fontSize (21 / 2), leading 14]"
| "ParagraphStyle BulletItem =
     [fontName BASE_FONT, fontSize (21 / 2), leading 14, leftIndent 10, bulletIndent 0]"
| "ParagraphStyle SmallNote = [fontName BASE_FONT, fontSize (19 / 2), leading 12, textColor grey]"

datatype align = LEFT | RIGHT | TOP

text \<open>
  A table style command with its cell range \<open>(col, row)\<close> to \<open>(col, row)\<close>, as written
  in the source; a negative index counts from the end.
\<close>

datatype table_cmd =
    VALIGN "int \<times> int" "int \<times> int" align
  | ALIGN "int \<times> int" "int \<times> int" align
  | LEFTPADDING "int \<times> int" "int \<times> int" rat
  | RIGHTPADDING "int \<times> int" "int \<times> int" rat
  | TOPPADDING "int \<times> int" "int \<times> int" rat
  | BOTTOMPADDING "int \<times> int" "int \<times> int" rat

datatype ec_level = ERROR_CORRECT_L | ERROR_CORRECT_M | ERROR_CORRECT_Q | ERROR_CORRECT_H

text \<open>
  What \<open>make_qr\<close> asks of the QR library: the symbol's parameters, the data added and
  the colours of the image. The PNG is the library's encoding of this request.
\<close>

record qr_code =
  version :: "nat option"
  error_correction :: ec_level
  box_size :: nat
  border :: nat
  qr_data :: string
  fill_color :: string
  back_color :: string

datatype image_source = QRPng qr_code | ImageFile string

datatype flowable =
    Paragraph string style_name
  | Spacer rat rat
  | Image_flowable image_source rat rat
  | Table "flowable list list" "rat option list" "table_cmd list"
  | KeepInFrame rat rat "flowable list" align

text \<open>\<open>tbl.setStyle(TableStyle(cmds))\<close> adds the commands to the table's.\<close>

fun setStyle :: "flowable \<Rightarrow> table_cmd list \<Rightarrow> flowable" where
  "setStyle (Table rows widths cmds) new = Table rows widths (cmds @ new)"
| "setStyle f new = f"

text \<open>The images of a block, in reading order (row by row, top to bottom).\<close>

primrec images_of :: "flowable \<Rightarrow> image_source list" where
  "images_of (Paragraph t s) = []"
| "images_of (Spacer w h) = []"
| "images_of (Image_flowable src w h) = [src]"
| "images_of (Table rows widths cmds) = concat (concat (map (map images_of) rows))"
| "images_of (KeepInFrame w h content a) = concat (map images_of content)"

text \<open>The paragraphs (text and style) of a block, nested ones included, in reading order.\<close>

primrec paragraphs_of :: "flowable \<Rightarrow> (string \<times> style_name) list" where
  "paragraphs_of (Paragraph t s) = [(t, s)]"
| "paragraphs_of (Spacer w h) = []"
| "paragraphs_of (Image_flowable src w h) = []"
| "paragraphs_of (Table rows widths cmds) = concat (concat (map (map paragraphs_of) rows))"
| "paragraphs_of (KeepInFrame w h content a) = concat (map paragraphs_of content)"

section \<open>Helpers: \<open>make_qr\<close> and \<open>footer\<close>\<close>

definition make_qr :: "string \<Rightarrow> nat \<Rightarrow> image_source" where
  "make_qr url bsize =
     QRPng \<lparr>version = None, error_correction = ERROR_CORRECT_M, box_size = bsize,
            border = 2, qr_data = url, fill_color = ''black'', back_color = ''white''\<rparr>"

record date =
  year :: nat
  month :: nat
  day :: nat

definition digit :: "nat \<Rightarrow> char" where
  "digit n = ''0123456789'' ! (n mod 10)"

fun decimal :: "nat \<Rightarrow> string" where
  "decimal n = (if n < 10 then [digit n] else decimal (n div 10) @ [digit n])"

definition two_digits :: "nat \<Rightarrow> string" where
  "two_digits n = [digit (n div 10), digit n]"

text \<open>\<open>d.strftime("%Y.%m.%d")\<close>, for a year of four digits.\<close>

definition strftime :: "date \<Rightarrow> string" where
  "strftime d = decimal (year d) @ ''.'' @ two_digits (month d) @ ''.'' @ two_digits (day d)"

datatype canvas_op =
    saveState
  | setFont string rat
  | setFillColor color
  | drawString rat rat string
  | drawRightString rat rat string
  | restoreState

text \<open>
  The page footer: what the callback draws on the canvas of a page when the clock
  reads the date \<open>clock\<close>.
\<close>

definition footer :: "date \<Rightarrow> canvas_op list" where
  "footer clock =
     (let today = strftime clock;
          left = ''Generated with Python '' @ emdash @ '' v'' @ today;
          right = copyright_sign @ '' Alexander Schram''
      in [saveState,
          setFont BASE_FONT 8,
          setFillColor grey,
          drawString (18 * mm) (12 * mm) left,
          drawRightString (fst A4 - 18 * mm) (12 * mm) right,
          restoreState])"

section \<open>The document assembler: \<open>build_pdf\<close>\<close>

text \<open>The fixed pieces of the two link f-strings of the contact line.\<close>

definition link_open :: string where
  \<open>link_open = ''<link href="''\<close>

definition link_mid :: string where
  \<open>link_mid = ''">''\<close>

definition link_close :: string where
  "link_close = ''</link>''"

text \<open>
  The loop over \<open>DATA.get("links", {}).items()\<close>, appending to \<open>parts\<close> one link per
  item whose URL is not empty.
\<close>

fun links_loop :: "string list \<Rightarrow> (string \<times> string) list \<Rightarrow> string list" where
  "links_loop parts [] = parts"
| "links_loop parts ((label, url) # items) =
     links_loop
       (if url \<noteq> [] then parts @ [link_open @ url @ link_mid @ label @ link_close] else parts)
       items"

definition contact_parts :: "cv_content \<Rightarrow> string list" where
  "contact_parts d =
     (let parts0 = [];
          parts1 = (case email d of
                      None \<Rightarrow> parts0
                    | Some e \<Rightarrow>
                        if e \<noteq> []
                        then parts0 @ [link_open @ ''mailto:'' @ e @ link_mid @ e @ link_close]
                        else parts0);
          parts2 = (case phone d of
                      None \<Rightarrow> parts1
                    | Some p \<Rightarrow> if p \<noteq> [] then parts1 @ [p] else parts1);
          parts3 = (case location d of
                      None \<Rightarrow> parts2
                    | Some l \<Rightarrow> if l \<noteq> [] then parts2 @ [l] else parts2)
      in links_loop parts3 (case links d of None \<Rightarrow> [] | Some items \<Rightarrow> items))"

text \<open>
  The file system, as far as the program sees it: which paths hold a file.
  \<open>os.path.exists\<close> is false on the empty path.
\<close>

definition os_path_exists :: "(string \<Rightarrow> bool) \<Rightarrow> string \<Rightarrow> bool" where
  "os_path_exists files p = (p \<noteq> [] \<and> files p)"

text \<open>
  The rows of the right-hand header table: the QR image, and below it the headshot
  when \<open>HEADSHOT_PATH and os.path.exists(HEADSHOT_PATH)\<close>.
\<close>

definition right_cells :: "(string \<Rightarrow> bool) \<Rightarrow> string option \<Rightarrow> flowable list list" where
  "right_cells files headshot_path =
     (let qr_img = Image_flowable (make_qr LANDING_URL 6) (28 * mm) (28 * mm);
          cells = [[qr_img]]
      in case headshot_path of
           None \<Rightarrow> cells
         | Some p \<Rightarrow>
             if p \<noteq> [] \<and> os_path_exists files p
             then cells @ [[Spacer 1 (2 * mm)],
                           [Image_flowable (ImageFile p) (28 * mm) (28 * mm)]]
             else cells)"

definition right_tbl :: "(string \<Rightarrow> bool) \<Rightarrow> string option \<Rightarrow> flowable" where
  "right_tbl files headshot_path =
     setStyle (Table (right_cells files headshot_path) [Some (30 * mm)] [])
       [VALIGN (0, 0) (-1, -1) TOP,
        ALIGN (0, 0) (-1, -1) RIGHT,
        LEFTPADDING (0, 0) (-1, -1) 0,
        RIGHTPADDING (0, 0) (-1, -1) 0,
        TOPPADDING (0, 0) (-1, -1) 0,
        BOTTOMPADDING (0, 0) (-1, -1) 0]"

definition header_row :: "(string \<Rightarrow> bool) \<Rightarrow> string option \<Rightarrow> cv_content \<Rightarrow> py_error + flowable" where
  "header_row files headshot_path d =
     and_then (getitem ''name'' (name d)) (\<lambda>n.
     and_then (getitem ''title'' (title d)) (\<lambda>t.
       let name_p = Paragraph n NameLine;
           title_p = Paragraph t SubLine;
           contact_p = Paragraph (str_join ('' '' @ middot @ '' '') (contact_parts d)) BodyMain;
           left_stack = [name_p, title_p, Spacer 1 (2 * mm), contact_p];
           left_flow = KeepInFrame 0 0 left_stack LEFT
       in Inr (setStyle
                 (Table [[left_flow, right_tbl files headshot_path]] [None, Some (30 * mm)] [])
                 [VALIGN (0, 0) (-1, -1) TOP,
                  LEFTPADDING (0, 0) (-1, -1) 0,
                  RIGHTPADDING (0, 0) (-1, -1) 0,
                  BOTTOMPADDING (0, 0) (-1, -1) 0])))"

text \<open>The blocks of the summary section, guarded by \<open>if DATA.get("summary")\<close>.\<close>

definition summary_blocks :: "cv_content \<Rightarrow> flowable list" where
  "summary_blocks d =
     (case summary d of
        None \<Rightarrow> []
      | Some s \<Rightarrow>
          if s \<noteq> []
          then [Paragraph ''Summary'' H2Accent, Paragraph s BodyMain, Spacer 1 (3 * mm)]
          else [])"

text \<open>The inner loop over \<open>job.get("bullets", [])\<close>.\<close>

fun bullets_loop :: "flowable list \<Rightarrow> string list \<Rightarrow> flowable list" where
  "bullets_loop story [] = story"
| "bullets_loop story (b # bs) =
     bullets_loop (story @ [Paragraph (bullet_sign @ '' '' @ b) BulletItem]) bs"

text \<open>The loop over \<open>DATA["experience"]\<close>; a job without company, role or dates raises.\<close>

fun experience_loop :: "flowable list \<Rightarrow> job list \<Rightarrow> py_error + flowable list" where
  "experience_loop story [] = Inr story"
| "experience_loop story (j # jobs) =
     and_then (getitem ''company'' (company j)) (\<lambda>c.
     and_then (getitem ''role'' (role j)) (\<lambda>r.
     and_then (getitem ''dates'' (dates j)) (\<lambda>dt.
       let head = ''<b>'' @ c @ '' '' @ emdash @ '' '' @ r @ '' ('' @ dt @ '')</b>'';
           story1 = story @ [Paragraph head BodyMain];
           story2 = bullets_loop story1 (case bullets j of None \<Rightarrow> [] | Some bs \<Rightarrow> bs);
           story3 = story2 @ [Spacer 1 (1 * mm)]
       in experience_loop story3 jobs)))"

text \<open>The two-column block: technical and education left, languages and providers right.\<close>

definition two_col :: "cv_content \<Rightarrow> py_error + flowable" where
  "two_col d =
     and_then (getitem ''tech'' (tech d)) (\<lambda>tc.
     and_then (getitem ''education'' (education d)) (\<lambda>edu.
     and_then (getitem ''languages'' (languages d)) (\<lambda>lang.
     and_then (getitem ''providers'' (providers d)) (\<lambda>prov.
       let left_col = [Paragraph ''Technical'' H2Accent,
                       Paragraph tc BodyMain,
                       Spacer 1 (2 * mm),
                       Paragraph ''Education'' H2Accent]
                      @ map (\<lambda>item. Paragraph item BodyMain) edu;
           right_col = [Paragraph ''Languages'' H2Accent,
                        Paragraph lang BodyMain,
                        Spacer 1 (2 * mm),
                        Paragraph ''Data Providers'' H2Accent,
                        Paragraph prov BodyMain];
           left_kif = KeepInFrame 0 0 left_col LEFT;
           right_kif = KeepInFrame 0 0 right_col LEFT
       in Inr (setStyle (Table [[left_kif, right_kif]] [None, None] [])
                 [VALIGN (0, 0) (-1, -1) TOP,
                  LEFTPADDING (0, 0) (-1, -1) 0,
                  RIGHTPADDING (0, 0) (-1, -1) 12,
                  TOPPADDING (0, 0) (-1, -1) 0,
                  BOTTOMPADDING (0, 0) (-1, -1) 0])))))"

definition closing_note :: flowable where
  "closing_note =
     Paragraph (''Generated with Python '' @ emdash @ '' links above for PDF '' @ middot
                @ '' GitHub '' @ middot @ '' LinkedIn.'') SmallNote"

text \<open>
  The list \<open>story\<close> as \<open>build_pdf\<close> holds it when it calls \<open>doc.build(story)\<close>, for the
  content \<open>d\<close>, the configured headshot path and the files that exist; or the
  \<open>KeyError\<close> raised on the way.
\<close>

definition build_story :: "(string \<Rightarrow> bool) \<Rightarrow> string option \<Rightarrow> cv_content \<Rightarrow> py_error + flowable list" where
  "build_story files headshot_path d =
     and_then (header_row files headshot_path d) (\<lambda>hdr.
       let story0 = [hdr, Spacer 1 (6 * mm)];
           story1 = story0 @ summary_blocks d;
           story2 = story1 @ [Paragraph ''Experience'' H2Accent]
       in and_then (getitem ''experience'' (experience d)) (\<lambda>jobs.
          and_then (experience_loop story2 jobs) (\<lambda>story3.
          and_then (two_col d) (\<lambda>tbl.
            let story4 = story3 @ [Spacer 1 (4 * mm), tbl, Spacer 1 (6 * mm)];
                story5 = story4 @ [closing_note]
            in Inr story5))))"

text \<open>
  The document template with its one frame and page template, and the story, as the
  layout library receives them. \<open>onPage\<close> is what the footer callback draws on a page.
\<close>

record document =
  filename :: string
  pagesize :: "rat \<times> rat"
  margins :: "rat \<times> rat \<times> rat \<times> rat"
  frame :: "rat \<times> rat \<times> rat \<times> rat"
  onPage :: "canvas_op list"
  story :: "flowable list"

text \<open>
  The state a run works in: the module's \<open>DATA\<close>, the clock, the paths that hold a
  file, and the documents written (by path).
\<close>

record world =
  Data :: cv_content
  clock :: date
  files :: "string \<Rightarrow> bool"
  written :: "string \<Rightarrow> document option"

definition build_doc :: "string \<Rightarrow> world \<Rightarrow> py_error + document" where
  "build_doc path w =
     (let margin = 18 * mm;
          frm = (margin, margin, fst A4 - 2 * margin, snd A4 - 2 * margin)
      in and_then (build_story (files w) HEADSHOT_PATH (Data w)) (\<lambda>st.
           Inr \<lparr>filename = path, pagesize = A4, margins = (0, 0, 0, 0), frame = frm,
                onPage = footer (clock w), story = st\<rparr>))"

text \<open>
  \<open>build_pdf(path)\<close>: the document is laid out and written to \<open>path\<close>; nothing else
  of the state is assigned to.
\<close>

definition build_pdf :: "string \<Rightarrow> world \<Rightarrow> py_error + world" where
  "build_pdf path w =
     and_then (build_doc path w) (\<lambda>doc.
       Inr (w\<lparr>files := (files w)(path := True), written := (written w)(path := Some doc)\<rparr>))"

text \<open>
  The file that \<open>doc.build\<close> writes, as far as two runs can tell their files apart:
  the document that is laid out, and the stamp of the build. \<open>build_pdf\<close> creates
  its \<open>BaseDocTemplate\<close> without the library's \<open>invariant\<close> option, so the library
  writes the time of the build into the file (the creation date of the PDF, from which
  the file's identifier is computed). This is the behaviour of the layout library, not
  code of \<open>build_cv.py\<close>; \<open>secs\<close> is the time of day of the build, in seconds.
\<close>

record pdf_file =
  laid_out :: document
  creation_stamp :: "date \<times> nat"

definition serialized :: "string \<Rightarrow> world \<Rightarrow> nat \<Rightarrow> py_error + pdf_file" where
  "serialized path w secs =
     and_then (build_doc path w) (\<lambda>doc.
       Inr \<lparr>laid_out = doc, creation_stamp = (clock w, secs)\<rparr>)"

section \<open>Notions used in the statements\<close>

text \<open>
  The markup of a link in a paragraph: a span showing \<open>txt\<close> that points at
  \<open>href\<close>.
\<close>

definition link_span :: "string \<Rightarrow> string \<Rightarrow> string" where
  "link_span href txt = link_open @ href @ link_mid @ txt @ link_close"

text \<open>
  The entries of the contact line that come from the fields email, phone and location,
  and those that come from the links.
\<close>

definition field_entries :: "cv_content \<Rightarrow> string list" where
  "field_entries d =
     (if truthy (email d) then [link_span (''mailto:'' @ the (email d)) (the (email d))] else [])
     @ (if truthy (phone d) then [the (phone d)] else [])
     @ (if truthy (location d) then [the (location d)] else [])"

definition link_entries :: "cv_content \<Rightarrow> string list" where
  "link_entries d =
     map (\<lambda>(label, url). link_span url label)
       (filter (\<lambda>(label, url). url \<noteq> []) (case links d of None \<Rightarrow> [] | Some items \<Rightarrow> items))"

text \<open>
  The blocks of one experience entry: the heading, one bullet paragraph per bullet
  string in order, and the spacer that closes the entry.
\<close>

definition entry_blocks :: "job \<Rightarrow> flowable list \<Rightarrow> bool" where
  "entry_blocks j blocks =
     (case (company j, role j, dates j) of
        (Some c, Some r, Some dt) \<Rightarrow>
          blocks =
            Paragraph (''<b>'' @ c @ '' '' @ emdash @ '' '' @ r @ '' ('' @ dt @ '')</b>'') BodyMain
            # map (\<lambda>b. Paragraph (bullet_sign @ '' '' @ b) BulletItem)
                (case bullets j of None \<Rightarrow> [] | Some bs \<Rightarrow> bs)
            @ [Spacer 1 (1 * mm)]
      | _ \<Rightarrow> False)"

text \<open>
  The style commands of the header row, of the two-column table and of the right-hand
  table of the header.
\<close>

definition header_cmds :: "table_cmd list" where
  "header_cmds = [VALIGN (0, 0) (-1, -1) TOP,
                  LEFTPADDING (0, 0) (-1, -1) 0,
                  RIGHTPADDING (0, 0) (-1, -1) 0,
                  BOTTOMPADDING (0, 0) (-1, -1) 0]"

definition two_col_cmds :: "table_cmd list" where
  "two_col_cmds = [VALIGN (0, 0) (-1, -1) TOP,
                   LEFTPADDING (0, 0) (-1, -1) 0,
                   RIGHTPADDING (0, 0) (-1, -1) 12,
                   TOPPADDING (0, 0) (-1, -1) 0,
                   BOTTOMPADDING (0, 0) (-1, -1) 0]"

definition right_cmds :: "table_cmd list" where
  "right_cmds = [VALIGN (0, 0) (-1, -1) TOP,
                 ALIGN (0, 0) (-1, -1) RIGHT,
                 LEFTPADDING (0, 0) (-1, -1) 0,
                 RIGHTPADDING (0, 0) (-1, -1) 0,
                 TOPPADDING (0, 0) (-1, -1) 0,
                 BOTTOMPADDING (0, 0) (-1, -1) 0]"

text \<open>The keys that \<open>build_pdf\<close> reads with \<open>[...]\<close> are all there.\<close>

definition has_required_keys :: "cv_content \<Rightarrow> bool" where
  "has_required_keys d =
     (name d \<noteq> None \<and> title d \<noteq> None \<and>
      (case experience d of
         None \<Rightarrow> False
       | Some jobs \<Rightarrow> list_all (\<lambda>j. company j \<noteq> None \<and> role j \<noteq> None \<and> dates j \<noteq> None) jobs) \<and>
      tech d \<noteq> None \<and> education d \<noteq> None \<and> languages d \<noteq> None \<and> providers d \<noteq> None)"

text \<open>
  The headshot is shown: a path is configured and \<open>os.path.exists\<close> holds of it.
\<close>

definition headshot_available :: "(string \<Rightarrow> bool) \<Rightarrow> string option \<Rightarrow> bool" where
  "headshot_available fs hp = (case hp of None \<Rightarrow> False | Some p \<Rightarrow> os_path_exists fs p)"

text \<open>The data a QR image encodes; a picture read from a file encodes none.\<close>

fun qr_payload :: "image_source \<Rightarrow> string list" where
  "qr_payload (QRPng q) = [qr_data q]"
| "qr_payload (ImageFile p) = []"

text \<open>
  How the layout library reads the cell range of a table style command: the range runs
  from the cell \<open>start\<close> to the cell \<open>stop\<close>, both \<open>(column, row)\<close> and both
  included; a negative index counts from the end, so \<open>(0, 0)\<close> to \<open>(-1, -1)\<close> is
  the whole table. The padding of a cell on one side is the value of the last command
  for that side whose range holds the cell; \<open>None\<close> when no command sets it (the
  library's default then applies).
\<close>

datatype side = LeftSide | RightSide | TopSide | BottomSide

definition norm_index :: "nat \<Rightarrow> int \<Rightarrow> int" where
  "norm_index n i = (if i < 0 then i + int n else i)"

definition covers :: "nat \<times> nat \<Rightarrow> int \<times> int \<Rightarrow> int \<times> int \<Rightarrow> nat \<times> nat \<Rightarrow> bool" where
  "covers dims start stop cell =
     (norm_index (fst dims) (fst start) \<le> int (fst cell) \<and>
      int (fst cell) \<le> norm_index (fst dims) (fst stop) \<and>
      norm_index (snd dims) (snd start) \<le> int (snd cell) \<and>
      int (snd cell) \<le> norm_index (snd dims) (snd stop))"

fun sets_padding :: "side \<Rightarrow> table_cmd \<Rightarrow> ((int \<times> int) \<times> (int \<times> int) \<times> rat) option" where
  "sets_padding LeftSide (LEFTPADDING a b v) = Some (a, b, v)"
| "sets_padding RightSide (RIGHTPADDING a b v) = Some (a, b, v)"
| "sets_padding TopSide (TOPPADDING a b v) = Some (a, b, v)"
| "sets_padding BottomSide (BOTTOMPADDING a b v) = Some (a, b, v)"
| "sets_padding s c = None"

fun cell_padding :: "side \<Rightarrow> nat \<times> nat \<Rightarrow> table_cmd list \<Rightarrow> nat \<times> nat \<Rightarrow> rat option" where
  "cell_padding s dims [] cell = None"
| "cell_padding s dims (c # cs) cell =
     (case cell_padding s dims cs cell of
        Some v \<Rightarrow> Some v
      | None \<Rightarrow>
          (case sets_padding s c of
             Some (a, b, v) \<Rightarrow> if covers dims a b cell then Some v else None
           | None \<Rightarrow> None))"

fun padding_of :: "side \<Rightarrow> flowable \<Rightarrow> nat \<times> nat \<Rightarrow> rat option" where
  "padding_of s (Table rows widths cmds) cell =
     cell_padding s (length widths, length rows) cmds cell"
| "padding_of s f cell = None"

section \<open>Inputs of the examples\<close>

text \<open>
  A file system without files, and one whose only file is \<open>AS.png\<close>, the headshot
  that the comment in the configuration names.
\<close>

definition no_files :: "string \<Rightarrow> bool" where
  "no_files p = False"

definition headshot_file :: "string \<Rightarrow> bool" where
  "headshot_file p = (p = ''AS.png'')"

text \<open>
  A content record without optional fields, whose sections are all empty, with the
  two-column table and the story that \<open>build_pdf\<close> makes of it.
\<close>

definition bare_cv :: cv_content where
  "bare_cv = \<lparr>
     name = Some ''A. Person'', title = Some ''Analyst'', location = None, email = None,
     phone = None, summary = None, experience = Some [], tech = Some [], providers = Some [],
     education = Some [], languages = Some [], links = None\<rparr>"

definition bare_two_col :: flowable where
  "bare_two_col =
     Table [[KeepInFrame 0 0
               [Paragraph ''Technical'' H2Accent, Paragraph [] BodyMain, Spacer 1 (2 * mm),
                Paragraph ''Education'' H2Accent] LEFT,
             KeepInFrame 0 0
               [Paragraph ''Languages'' H2Accent, Paragraph [] BodyMain, Spacer 1 (2 * mm),
                Paragraph ''Data Providers'' H2Accent, Paragraph [] BodyMain] LEFT]]
       [None, None] two_col_cmds"

definition bare_story :: "flowable list" where
  "bare_story =
     [Table [[KeepInFrame 0 0
                [Paragraph ''A. Person'' NameLine, Paragraph ''Analyst'' SubLine,
                 Spacer 1 (2 * mm), Paragraph [] BodyMain] LEFT,
              Table [[Image_flowable (make_qr LANDING_URL 6) (28 * mm) (28 * mm)]]
                [Some (30 * mm)] right_cmds]]
        [None, Some (30 * mm)] header_cmds,
      Spacer 1 (6 * mm),
      Paragraph ''Experience'' H2Accent,
      Spacer 1 (4 * mm),
      bare_two_col,
      Spacer 1 (6 * mm),
      closing_note]"

text \<open>
  Two states of a run on the program's own \<open>DATA\<close>: on different days, with
  different files, nothing written yet.
\<close>

definition no_documents :: "string \<Rightarrow> document option" where
  "no_documents p = None"

definition world_nov :: world where
  "world_nov = \<lparr>Data = DATA, clock = \<lparr>year = 2026, month = 11, day = 4\<rparr>,
                 files = no_files, written = no_documents\<rparr>"

definition world_dec :: world where
  "world_dec = \<lparr>Data = DATA, clock = \<lparr>year = 2026, month = 12, day = 25\<rparr>,
                 files = headshot_file, written = no_documents\<rparr>"

section \<open>Auxiliary facts\<close>

declare decimal.simps [simp del]

lemma and_then_Inr_iff: "and_then r k = Inr y \<longleftrightarrow> (\<exists>v. r = Inr v \<and> k v = Inr y)"
  by (cases r) (simp_all add: and_then_def)

lemma getitem_Inr_iff: "getitem k v = Inr x \<longleftrightarrow> v = Some x"
  by (cases v) (simp_all add: getitem_def)

lemma links_loop_eq:
  "links_loop parts items =
     parts @ map (\<lambda>(label, url). link_span url label) (filter (\<lambda>(label, url). url \<noteq> []) items)"
  by (induction parts items rule: links_loop.induct) (simp_all add: link_span_def)

lemma bullets_loop_eq:
  "bullets_loop st bs = st @ map (\<lambda>b. Paragraph (bullet_sign @ '' '' @ b) BulletItem) bs"
  by (induction bs arbitrary: st) simp_all

lemma experience_loop_Inr:
  "experience_loop st jobs = Inr st' \<Longrightarrow>
     \<exists>groups. list_all2 entry_blocks jobs groups \<and> st' = st @ concat groups"
proof (induction jobs arbitrary: st)
  case Nil
  then show ?case by simp
next
  case (Cons j jobs)
  from Cons.prems obtain c r dt where
    c: "company j = Some c" and r: "role j = Some r" and dt: "dates j = Some dt"
    and rest: "experience_loop
        (bullets_loop (st @ [Paragraph (''<b>'' @ c @ '' '' @ emdash @ '' '' @ r @ '' ('' @ dt @ '')</b>'') BodyMain])
           (case bullets j of None \<Rightarrow> [] | Some bs \<Rightarrow> bs) @ [Spacer 1 (1 * mm)]) jobs = Inr st'"
    by (auto simp: and_then_Inr_iff getitem_Inr_iff Let_def)
  from Cons.IH [OF rest] obtain groups where
    g: "list_all2 entry_blocks jobs groups"
    and st': "st' = (bullets_loop (st @ [Paragraph (''<b>'' @ c @ '' '' @ emdash @ '' '' @ r @ '' ('' @ dt @ '')</b>'') BodyMain])
           (case bullets j of None \<Rightarrow> [] | Some bs \<Rightarrow> bs) @ [Spacer 1 (1 * mm)]) @ concat groups"
    by blast
  let ?g = "Paragraph (''<b>'' @ c @ '' '' @ emdash @ '' '' @ r @ '' ('' @ dt @ '')</b>'') BodyMain
            # map (\<lambda>b. Paragraph (bullet_sign @ '' '' @ b) BulletItem)
                (case bullets j of None \<Rightarrow> [] | Some bs \<Rightarrow> bs)
            @ [Spacer 1 (1 * mm)]"
  have "entry_blocks j ?g" by (simp add: entry_blocks_def c r dt)
  with g have "list_all2 entry_blocks (j # jobs) (?g # groups)" by simp
  moreover have "st' = st @ concat (?g # groups)"
    by (simp add: st' bullets_loop_eq)
  ultimately show ?case by blast
qed

lemma experience_loop_total:
  "list_all (\<lambda>j. company j \<noteq> None \<and> role j \<noteq> None \<and> dates j \<noteq> None) jobs \<Longrightarrow>
     \<exists>st'. experience_loop st jobs = Inr st'"
  by (induction jobs arbitrary: st) (auto simp: and_then_def getitem_def Let_def)

lemma build_story_Inr:
  assumes "build_story fs hp d = Inr st"
  shows "\<exists>hdr jobs groups tbl.
           header_row fs hp d = Inr hdr \<and> experience d = Some jobs \<and> two_col d = Inr tbl \<and>
           list_all2 entry_blocks jobs groups \<and>
           st = [hdr, Spacer 1 (6 * mm)] @ summary_blocks d @ [Paragraph ''Experience'' H2Accent]
                @ concat groups @ [Spacer 1 (4 * mm), tbl, Spacer 1 (6 * mm), closing_note]"
proof -
  from assms obtain hdr jobs st3 tbl where
    h: "header_row fs hp d = Inr hdr" and j: "experience d = Some jobs"
    and l: "experience_loop ([hdr, Spacer 1 (6 * mm)] @ summary_blocks d @ [Paragraph ''Experience'' H2Accent]) jobs = Inr st3"
    and t: "two_col d = Inr tbl"
    and s: "st = st3 @ [Spacer 1 (4 * mm), tbl, Spacer 1 (6 * mm)] @ [closing_note]"
    by (auto simp: build_story_def and_then_Inr_iff getitem_Inr_iff Let_def)
  from experience_loop_Inr [OF l] obtain groups where
    "list_all2 entry_blocks jobs groups"
    "st3 = ([hdr, Spacer 1 (6 * mm)] @ summary_blocks d @ [Paragraph ''Experience'' H2Accent]) @ concat groups"
    by blast
  with h j t s show ?thesis by auto
qed

lemma header_row_Inr:
  "header_row fs hp d = Inr hdr \<Longrightarrow>
     \<exists>n t. name d = Some n \<and> title d = Some t \<and>
       hdr = Table [[KeepInFrame 0 0
                       [Paragraph n NameLine, Paragraph t SubLine, Spacer 1 (2 * mm),
                        Paragraph (str_join ('' '' @ middot @ '' '') (contact_parts d)) BodyMain]
                       LEFT,
                     right_tbl fs hp]]
               [None, Some (30 * mm)] header_cmds"
  by (auto simp: header_row_def and_then_Inr_iff getitem_Inr_iff Let_def header_cmds_def)

lemma two_col_Inr:
  "two_col d = Inr tbl \<Longrightarrow>
     \<exists>tc edu lang prov. tech d = Some tc \<and> education d = Some edu \<and>
       languages d = Some lang \<and> providers d = Some prov \<and>
       tbl = Table [[KeepInFrame 0 0
                       ([Paragraph ''Technical'' H2Accent, Paragraph tc BodyMain,
                         Spacer 1 (2 * mm), Paragraph ''Education'' H2Accent]
                        @ map (\<lambda>item. Paragraph item BodyMain) edu) LEFT,
                     KeepInFrame 0 0
                       [Paragraph ''Languages'' H2Accent, Paragraph lang BodyMain,
                        Spacer 1 (2 * mm), Paragraph ''Data Providers'' H2Accent,
                        Paragraph prov BodyMain] LEFT]]
               [None, None] two_col_cmds"
  by (auto simp: two_col_def and_then_Inr_iff getitem_Inr_iff Let_def two_col_cmds_def)

lemma build_story_total:
  assumes "has_required_keys d"
  shows "\<exists>st. build_story fs hp d = Inr st"
proof -
  from assms obtain n t jobs tc edu lang prov where
    k: "name d = Some n" "title d = Some t" "experience d = Some jobs" "tech d = Some tc"
       "education d = Some edu" "languages d = Some lang" "providers d = Some prov"
    and js: "list_all (\<lambda>j. company j \<noteq> None \<and> role j \<noteq> None \<and> dates j \<noteq> None) jobs"
    by (auto simp: has_required_keys_def split: option.splits)
  from k obtain hdr where h: "header_row fs hp d = Inr hdr"
    by (simp add: header_row_def and_then_def getitem_def Let_def)
  from k obtain tbl where t: "two_col d = Inr tbl"
    by (simp add: two_col_def and_then_def getitem_def Let_def)
  from experience_loop_total [OF js] obtain st3 where
    "experience_loop ([hdr, Spacer 1 (6 * mm)] @ summary_blocks d @ [Paragraph ''Experience'' H2Accent]) jobs = Inr st3"
    by blast
  with h t k show ?thesis
    by (simp add: build_story_def and_then_def getitem_def Let_def)
qed

lemma DATA_has_required_keys: "has_required_keys DATA"
  by (simp add: has_required_keys_def DATA_def)

lemma paragraphs_of_right_tbl: "paragraphs_of (right_tbl fs hp) = []"
  by (simp add: right_tbl_def right_cells_def Let_def split: option.splits)

lemma entry_blocks_no_h2:
  "entry_blocks j g \<Longrightarrow> filter (\<lambda>p. snd p = H2Accent) (concat (map paragraphs_of g)) = []"
  by (auto simp: entry_blocks_def filter_empty_conv split: option.splits)

lemma groups_no_h2:
  "list_all2 entry_blocks jobs groups \<Longrightarrow>
     filter (\<lambda>p. snd p = H2Accent) (concat (map paragraphs_of (concat groups))) = []"
  by (induction rule: list_all2_induct) (simp_all add: entry_blocks_no_h2)

lemma summary_blocks_h2:
  "map fst (filter (\<lambda>p. snd p = H2Accent) (concat (map paragraphs_of (summary_blocks d))))
     = (if truthy (summary d) then [''Summary''] else [])"
  by (simp add: summary_blocks_def truthy_def split: option.splits)

lemma section_headings:
  assumes "build_story fs hp d = Inr st"
  shows "map fst (filter (\<lambda>p. snd p = H2Accent) (concat (map paragraphs_of st)))
           = (if truthy (summary d) then [''Summary''] else [])
             @ [''Experience'', ''Technical'', ''Education'', ''Languages'', ''Data Providers'']"
proof -
  from build_story_Inr [OF assms] obtain hdr jobs groups tbl where
    h: "header_row fs hp d = Inr hdr" and t: "two_col d = Inr tbl"
    and g: "list_all2 entry_blocks jobs groups"
    and s: "st = [hdr, Spacer 1 (6 * mm)] @ summary_blocks d @ [Paragraph ''Experience'' H2Accent]
                @ concat groups @ [Spacer 1 (4 * mm), tbl, Spacer 1 (6 * mm), closing_note]"
    by blast
  have hh: "filter (\<lambda>p. snd p = H2Accent) (paragraphs_of hdr) = []"
    using header_row_Inr [OF h] by (auto simp: paragraphs_of_right_tbl)
  have tt: "map fst (filter (\<lambda>p. snd p = H2Accent) (paragraphs_of tbl))
              = [''Technical'', ''Education'', ''Languages'', ''Data Providers'']"
    using two_col_Inr [OF t] by (auto simp: filter_empty_conv o_def)
  show ?thesis
    by (simp add: s hh tt groups_no_h2 [OF g] summary_blocks_h2 closing_note_def)
qed

lemma contact_parts_eq: "contact_parts d = field_entries d @ link_entries d"
  by (simp add: contact_parts_def field_entries_def link_entries_def links_loop_eq truthy_def
        link_span_def Let_def split: option.splits)

lemma DATA_entries:
  "field_entries DATA @ link_entries DATA =
     [link_span ''mailto:apschram@gmail.com'' ''apschram@gmail.com'',
      ''+31 6 52 36 73 57'', ''Amsterdam, NL'',
      link_span PDF_URL ''PDF'', link_span LINKEDIN_URL ''LinkedIn'', link_span GITHUB_URL ''GitHub'']"
  by (simp add: field_entries_def link_entries_def DATA_def truthy_def
        PDF_URL_def LINKEDIN_URL_def GITHUB_URL_def)

lemma two_col_bare: "two_col bare_cv = Inr bare_two_col"
  by (simp add: two_col_def bare_cv_def bare_two_col_def and_then_def getitem_def two_col_cmds_def)

lemma header_row_bare:
  "header_row no_files None bare_cv =
     Inr (Table [[KeepInFrame 0 0
                [Paragraph ''A. Person'' NameLine, Paragraph ''Analyst'' SubLine,
                 Spacer 1 (2 * mm), Paragraph [] BodyMain] LEFT,
              Table [[Image_flowable (make_qr LANDING_URL 6) (28 * mm) (28 * mm)]]
                [Some (30 * mm)] right_cmds]]
        [None, Some (30 * mm)] header_cmds)"
  by (simp add: header_row_def bare_cv_def and_then_def getitem_def header_cmds_def
        contact_parts_def right_tbl_def right_cells_def right_cmds_def Let_def)

lemma build_story_bare: "build_story no_files None bare_cv = Inr bare_story"
proof -
  have s: "summary_blocks bare_cv = []" and e: "experience bare_cv = Some []"
    by (simp_all add: summary_blocks_def bare_cv_def)
  show ?thesis
    by (simp add: build_story_def header_row_bare two_col_bare s e and_then_def getitem_def
          bare_story_def Let_def)
qed

lemma entry_blocks_no_empty_body:
  "entry_blocks j g \<Longrightarrow> Paragraph [] BodyMain \<notin> set g"
  by (auto simp: entry_blocks_def split: option.splits)

lemma groups_no_empty_body:
  "list_all2 entry_blocks jobs groups \<Longrightarrow> Paragraph [] BodyMain \<notin> set (concat groups)"
  by (induction rule: list_all2_induct) (simp_all add: entry_blocks_no_empty_body)

lemma summary_blocks_falsy: "\<not> truthy (summary d) \<Longrightarrow> summary_blocks d = []"
  by (simp add: summary_blocks_def truthy_def split: option.splits)

lemma falsy_body_absent:
  assumes "build_story fs hp d = Inr st" and "\<not> truthy (summary d)" and "summary d = Some s"
  shows "Paragraph s BodyMain \<notin> set st"
proof -
  from assms(2,3) have s: "s = []" by (simp add: truthy_def)
  from build_story_Inr [OF assms(1)] obtain hdr jobs groups tbl where
    h: "header_row fs hp d = Inr hdr" and t: "two_col d = Inr tbl"
    and g: "list_all2 entry_blocks jobs groups"
    and st: "st = [hdr, Spacer 1 (6 * mm)] @ summary_blocks d @ [Paragraph ''Experience'' H2Accent]
                @ concat groups @ [Spacer 1 (4 * mm), tbl, Spacer 1 (6 * mm), closing_note]"
    by blast
  from header_row_Inr [OF h] have hh: "hdr \<noteq> Paragraph [] BodyMain" by auto
  from two_col_Inr [OF t] have tt: "tbl \<noteq> Paragraph [] BodyMain" by auto
  show ?thesis
    using hh tt groups_no_empty_body [OF g]
    by (simp add: st s summary_blocks_falsy [OF assms(2)] closing_note_def)
qed

lemma h2_member:
  "(t, H2Accent) \<in> set (concat (map paragraphs_of st)) \<longleftrightarrow>
     t \<in> set (map fst (filter (\<lambda>p. snd p = H2Accent) (concat (map paragraphs_of st))))"
  by force

lemma no_summary_required: "has_required_keys (DATA\<lparr>summary := Some []\<rparr>)"
  using DATA_has_required_keys by (simp add: has_required_keys_def)

lemma entry_blocks_length:
  "entry_blocks j g \<Longrightarrow> length g = 2 + length (case bullets j of None \<Rightarrow> [] | Some bs \<Rightarrow> bs)"
  by (auto simp: entry_blocks_def split: option.splits)

lemma groups_lengths:
  "list_all2 entry_blocks jobs groups \<Longrightarrow>
     map length groups = map (\<lambda>j. 2 + length (case bullets j of None \<Rightarrow> [] | Some bs \<Rightarrow> bs)) jobs"
  by (induction rule: list_all2_induct) (simp_all add: entry_blocks_length)

lemma DATA_bullet_counts:
  "map (\<lambda>j. 2 + length (case bullets j of None \<Rightarrow> [] | Some bs \<Rightarrow> bs)) (the (experience DATA))
     = [5, 4, 3, 3, 3, 3]"
  by (simp add: DATA_def)

lemma summary_blocks_truthy: "truthy (summary d) \<Longrightarrow> length (summary_blocks d) = 3"
  by (cases "summary d") (simp_all add: summary_blocks_def truthy_def)

lemma DATA_summary_truthy: "truthy (summary DATA)"
  by (simp add: DATA_def truthy_def)

lemma right_tbl_eq: "right_tbl fs hp = Table (right_cells fs hp) [Some (30 * mm)] right_cmds"
  by (simp add: right_tbl_def right_cmds_def)

lemma right_cells_eq:
  "right_cells fs hp =
     (if headshot_available fs hp
      then [[Image_flowable (make_qr LANDING_URL 6) (28 * mm) (28 * mm)],
            [Spacer 1 (2 * mm)],
            [Image_flowable (ImageFile (the hp)) (28 * mm) (28 * mm)]]
      else [[Image_flowable (make_qr LANDING_URL 6) (28 * mm) (28 * mm)]])"
  by (auto simp: right_cells_def headshot_available_def os_path_exists_def Let_def
        split: option.splits)

lemma images_of_groups:
  "list_all2 entry_blocks jobs groups \<Longrightarrow> concat (map images_of (concat groups)) = []"
  by (induction rule: list_all2_induct) (auto simp: entry_blocks_def split: option.splits)

lemma images_of_summary_blocks: "concat (map images_of (summary_blocks d)) = []"
  by (cases "summary d") (auto simp: summary_blocks_def)

lemma qr_payloads_right_cells:
  "concat (map qr_payload (concat (concat (map (map images_of) (right_cells fs hp)))))
     = [LANDING_URL]"
  by (simp add: right_cells_eq make_qr_def)

lemma two_col_cmds_padding:
  "map (\<lambda>s. cell_padding s (length [a, b], length [r]) two_col_cmds (0, 0))
     [LeftSide, RightSide, TopSide, BottomSide] = [Some 0, Some 12, Some 0, Some 0]"
  "map (\<lambda>s. cell_padding s (length [a, b], length [r]) two_col_cmds (1, 0))
     [LeftSide, RightSide, TopSide, BottomSide] = [Some 0, Some 12, Some 0, Some 0]"
  by (simp_all add: two_col_cmds_def covers_def norm_index_def)

lemma right_cells_no_headshot: "right_cells fs None = right_cells fs' None"
  by (simp add: right_cells_def)

lemma build_story_no_headshot: "build_story fs None d = build_story fs' None d"
  by (simp add: build_story_def header_row_def right_tbl_def right_cells_no_headshot [of fs fs'])

lemma footer_split:
  "footer c =
     [saveState, setFont BASE_FONT 8, setFillColor grey]
     @ [drawString (18 * mm) (12 * mm) ((''Generated with Python '' @ emdash @ '' v'') @ strftime c)]
     @ [drawRightString (fst A4 - 18 * mm) (12 * mm) (copyright_sign @ '' Alexander Schram''),
        restoreState]"
  by (simp add: footer_def Let_def)

lemma build_doc_Inl:
  "build_doc path w = Inl e \<longleftrightarrow> build_story (files w) HEADSHOT_PATH (Data w) = Inl e"
  by (cases "build_story (files w) HEADSHOT_PATH (Data w)")
     (simp_all add: build_doc_def and_then_def Let_def)

lemma build_doc_Inr:
  "build_story (files w) HEADSHOT_PATH (Data w) = Inr st \<Longrightarrow>
   build_doc path w =
     Inr \<lparr>filename = path, pagesize = A4, margins = (0, 0, 0, 0),
          frame = (18 * mm, 18 * mm, fst A4 - 2 * (18 * mm), snd A4 - 2 * (18 * mm)),
          onPage = footer (clock w), story = st\<rparr>"
  by (simp add: build_doc_def and_then_def Let_def)

lemma strftime_nov: "strftime \<lparr>year = 2026, month = 11, day = 4\<rparr> = ''2026.11.04''"
  by (simp add: strftime_def decimal.simps two_digits_def digit_def)

lemma strftime_dec: "strftime \<lparr>year = 2026, month = 12, day = 25\<rparr> = ''2026.12.25''"
  by (simp add: strftime_def decimal.simps two_digits_def digit_def)

lemma build_doc_total:
  "has_required_keys (Data w) \<Longrightarrow> \<exists>doc. build_doc path w = Inr doc"
  using build_story_total [of "Data w" "files w" HEADSHOT_PATH]
  by (auto simp: build_doc_def and_then_def Let_def)

lemma build_pdf_Inr:
  "build_pdf path w = Inr w' \<Longrightarrow>
     \<exists>doc. build_doc path w = Inr doc \<and>
       w' = w\<lparr>files := (files w)(path := True), written := (written w)(path := Some doc)\<rparr>"
  by (auto simp: build_pdf_def and_then_Inr_iff)

lemma entry_blocks_styles:
  "entry_blocks j g \<Longrightarrow>
     map snd (concat (map paragraphs_of g))
       = BodyMain # replicate (length (case bullets j of None \<Rightarrow> [] | Some bs \<Rightarrow> bs)) BulletItem"
  by (auto simp: entry_blocks_def o_def map_concat map_replicate_const split: option.splits)

lemma groups_styles:
  "list_all2 entry_blocks jobs groups \<Longrightarrow>
     map (\<lambda>g. map snd (concat (map paragraphs_of g))) groups
       = map (\<lambda>j. BodyMain
                  # replicate (length (case bullets j of None \<Rightarrow> [] | Some bs \<Rightarrow> bs)) BulletItem)
           jobs"
  by (induction rule: list_all2_induct) (simp_all add: entry_blocks_styles)

lemma DATA_bullet_styles:
  "map (\<lambda>j. BodyMain
             # replicate (length (case bullets j of None \<Rightarrow> [] | Some bs \<Rightarrow> bs)) BulletItem)
     (the (experience DATA))
   = [[BodyMain, BulletItem, BulletItem, BulletItem],
      [BodyMain, BulletItem, BulletItem],
      [BodyMain, BulletItem], [BodyMain, BulletItem], [BodyMain, BulletItem],
      [BodyMain, BulletItem]]"
  by (simp add: DATA_def numeral_3_eq_3 numeral_2_eq_2)

lemma build_story_nonempty: "build_story fs hp d = Inr st \<Longrightarrow> st \<noteq> []"
  using build_story_Inr [of fs hp d st] by auto

lemma serialized_Inr:
  "build_doc path w = Inr doc \<Longrightarrow>
     serialized path w secs = Inr \<lparr>laid_out = doc, creation_stamp = (clock w, secs)\<rparr>"
  by (simp add: serialized_def and_then_def)

section \<open>The claims\<close>

text \<open>
  Claim C1, as stated, fails for the serialized output. Two runs in the same state, on
  the same day and so with the same footer string, one second apart: the documents
  laid out are the same, the files written differ, by the stamp of the build.
\<close>

theorem serialized_output_differs:
  "map_sum id laid_out (serialized OUTPUT_PDF world_nov 36000)
     = map_sum id laid_out (serialized OUTPUT_PDF world_nov 36001)
   \<and> serialized OUTPUT_PDF world_nov 36000 \<noteq> serialized OUTPUT_PDF world_nov 36001"
proof -
  have r: "has_required_keys (Data world_nov)"
    by (simp add: world_nov_def DATA_has_required_keys)
  from build_doc_total [OF r] obtain doc where doc: "build_doc OUTPUT_PDF world_nov = Inr doc"
    by blast
  show ?thesis
    by (simp add: serialized_Inr [OF doc])
qed

text \<open>
  Claim C1, amended. Two runs on the same content hand the layout library the same
  document, but for the date in the footer: they raise the same error, or they build
  documents with the same story, which is the assembler's block list for the content
  alone, and the same template, whose footers draw the same things but for the date
  string at the end of the left label. The file system is no input of the assembler as
  the program is configured (no headshot path). The files written hold these
  documents and the stamps of their builds: the footer date and the stamp are all
  that two files for the same content can differ in.
\<close>

theorem document_same_but_date:
  assumes "Data w1 = Data w2"
  shows "(\<exists>e. build_story no_files None (Data w1) = Inl e \<and>
              build_doc path w1 = Inl e \<and> build_doc path w2 = Inl e \<and>
              serialized path w1 s1 = Inl e \<and> serialized path w2 s2 = Inl e) \<or>
         (\<exists>st doc1 doc2.
            build_story no_files None (Data w1) = Inr st \<and> st \<noteq> [] \<and>
            build_doc path w1 = Inr doc1 \<and> build_doc path w2 = Inr doc2 \<and>
            story doc1 = st \<and> story doc2 = st \<and>
            doc1\<lparr>onPage := []\<rparr> = doc2\<lparr>onPage := []\<rparr> \<and>
            (\<exists>before after x y label.
               onPage doc1 = before @ [drawString x y (label @ strftime (clock w1))] @ after \<and>
               onPage doc2 = before @ [drawString x y (label @ strftime (clock w2))] @ after) \<and>
            serialized path w1 s1 = Inr \<lparr>laid_out = doc1, creation_stamp = (clock w1, s1)\<rparr> \<and>
            serialized path w2 s2 = Inr \<lparr>laid_out = doc2, creation_stamp = (clock w2, s2)\<rparr>)"
proof -
  have same1: "build_story (files w1) HEADSHOT_PATH (Data w1)
                = build_story no_files None (Data w1)"
    unfolding HEADSHOT_PATH_def by (rule build_story_no_headshot)
  have same2: "build_story (files w2) HEADSHOT_PATH (Data w2)
                = build_story no_files None (Data w1)"
    unfolding HEADSHOT_PATH_def assms by (rule build_story_no_headshot)
  show ?thesis
  proof (cases "build_story no_files None (Data w1)")
    case (Inl e)
    from Inl same1 have d1: "build_doc path w1 = Inl e" by (simp add: build_doc_Inl)
    from Inl same2 have d2: "build_doc path w2 = Inl e" by (simp add: build_doc_Inl)
    have f1: "serialized path w1 s1 = Inl e" by (simp add: serialized_def and_then_def d1)
    have f2: "serialized path w2 s2 = Inl e" by (simp add: serialized_def and_then_def d2)
    from Inl d1 d2 f1 f2 show ?thesis by blast
  next
    case (Inr st)
    let ?doc = "\<lambda>w. \<lparr>filename = path, pagesize = A4, margins = (0, 0, 0, 0),
          frame = (18 * mm, 18 * mm, fst A4 - 2 * (18 * mm), snd A4 - 2 * (18 * mm)),
          onPage = footer (clock w), story = st\<rparr>"
    from Inr same1 have "build_story (files w1) HEADSHOT_PATH (Data w1) = Inr st" by simp
    then have d1: "build_doc path w1 = Inr (?doc w1)" by (rule build_doc_Inr)
    from Inr same2 have "build_story (files w2) HEADSHOT_PATH (Data w2) = Inr st" by simp
    then have d2: "build_doc path w2 = Inr (?doc w2)" by (rule build_doc_Inr)
    have ne: "st \<noteq> []" using Inr by (rule build_story_nonempty)
    have s1: "story (?doc w1) = st" by simp
    have s2: "story (?doc w2) = st" by simp
    have t: "(?doc w1)\<lparr>onPage := []\<rparr> = (?doc w2)\<lparr>onPage := []\<rparr>" by simp
    have f: "\<exists>before after x y label.
               onPage (?doc w1) = before @ [drawString x y (label @ strftime (clock w1))] @ after \<and>
               onPage (?doc w2) = before @ [drawString x y (label @ strftime (clock w2))] @ after"
      apply (rule exI [of _ "[saveState, setFont BASE_FONT 8, setFillColor grey]"])
      apply (rule exI [of _ "[drawRightString (fst A4 - 18 * mm) (12 * mm)
                                (copyright_sign @ '' Alexander Schram''), restoreState]"])
      apply (rule exI [of _ "18 * mm"], rule exI [of _ "12 * mm"])
      apply (rule exI [of _ "''Generated with Python '' @ emdash @ '' v''"])
      apply (simp add: footer_split)
      done
    note z1 = serialized_Inr [OF d1, of s1]
    note z2 = serialized_Inr [OF d2, of s2]
    have "\<exists>st doc1 doc2.
            build_story no_files None (Data w1) = Inr st \<and> st \<noteq> [] \<and>
            build_doc path w1 = Inr doc1 \<and> build_doc path w2 = Inr doc2 \<and>
            story doc1 = st \<and> story doc2 = st \<and>
            doc1\<lparr>onPage := []\<rparr> = doc2\<lparr>onPage := []\<rparr> \<and>
            (\<exists>before after x y label.
               onPage doc1 = before @ [drawString x y (label @ strftime (clock w1))] @ after \<and>
               onPage doc2 = before @ [drawString x y (label @ strftime (clock w2))] @ after) \<and>
            serialized path w1 s1 = Inr \<lparr>laid_out = doc1, creation_stamp = (clock w1, s1)\<rparr> \<and>
            serialized path w2 s2 = Inr \<lparr>laid_out = doc2, creation_stamp = (clock w2, s2)\<rparr>"
      apply (rule exI [of _ st], rule exI [of _ "?doc w1"], rule exI [of _ "?doc w2"])
      apply (intro conjI)
               apply (rule Inr, rule ne, rule d1, rule d2, rule s1, rule s2, rule t, rule f)
       apply (rule z1, rule z2)
      done
    then show ?thesis by (rule disjI2)
  qed
qed

theorem document_same_but_date_witness:
  "Data world_nov = Data world_dec \<and> files world_nov \<noteq> files world_dec \<and>
   (\<exists>st doc1 doc2.
      build_story no_files None DATA = Inr st \<and> st \<noteq> [] \<and>
      build_doc OUTPUT_PDF world_nov = Inr doc1 \<and> build_doc OUTPUT_PDF world_dec = Inr doc2 \<and>
      story doc1 = st \<and> story doc2 = st \<and>
      doc1\<lparr>onPage := []\<rparr> = doc2\<lparr>onPage := []\<rparr> \<and>
      (\<exists>before after x y label.
         onPage doc1 = before @ [drawString x y (label @ ''2026.11.04'')] @ after \<and>
         onPage doc2 = before @ [drawString x y (label @ ''2026.12.25'')] @ after) \<and>
      serialized OUTPUT_PDF world_nov 36000
        = Inr \<lparr>laid_out = doc1, creation_stamp = (clock world_nov, 36000)\<rparr> \<and>
      serialized OUTPUT_PDF world_dec 61200
        = Inr \<lparr>laid_out = doc2, creation_stamp = (clock world_dec, 61200)\<rparr>)"
proof -
  have d: "Data world_nov = Data world_dec" by (simp add: world_nov_def world_dec_def)
  have dn: "Data world_nov = DATA" by (simp add: world_nov_def)
  have "files world_nov ''AS.png'' \<noteq> files world_dec ''AS.png''"
    by (simp add: world_nov_def world_dec_def no_files_def headshot_file_def)
  then have fs: "files world_nov \<noteq> files world_dec" by metis
  have c1: "strftime (clock world_nov) = ''2026.11.04''"
    by (simp add: world_nov_def strftime_nov)
  have c2: "strftime (clock world_dec) = ''2026.12.25''"
    by (simp add: world_dec_def strftime_dec)
  from build_story_total [OF DATA_has_required_keys] obtain st0 where
    st0: "build_story no_files None DATA = Inr st0" by blast
  from document_same_but_date [OF d, of OUTPUT_PDF 36000 61200] st0
  have "\<exists>st doc1 doc2.
      build_story no_files None DATA = Inr st \<and> st \<noteq> [] \<and>
      build_doc OUTPUT_PDF world_nov = Inr doc1 \<and> build_doc OUTPUT_PDF world_dec = Inr doc2 \<and>
      story doc1 = st \<and> story doc2 = st \<and>
      doc1\<lparr>onPage := []\<rparr> = doc2\<lparr>onPage := []\<rparr> \<and>
      (\<exists>before after x y label.
         onPage doc1 = before @ [drawString x y (label @ strftime (clock world_nov))] @ after \<and>
         onPage doc2 = before @ [drawString x y (label @ strftime (clock world_dec))] @ after) \<and>
      serialized OUTPUT_PDF world_nov 36000
        = Inr \<lparr>laid_out = doc1, creation_stamp = (clock world_nov, 36000)\<rparr> \<and>
      serialized OUTPUT_PDF world_dec 61200
        = Inr \<lparr>laid_out = doc2, creation_stamp = (clock world_dec, 61200)\<rparr>"
    unfolding dn by simp
  then show ?thesis unfolding c1 c2 using d fs by (intro conjI) (rule d fs | assumption)+
qed

text \<open>
  Claim C2. Whenever the assembler produces a block list, the blocks after the
  heading of the experience section are the groups of the entries, one group per
  entry of the record, in the record's order, none left out; the group of an entry is
  its heading paragraph, then one bullet paragraph per bullet string of the entry, in
  the order of the strings, then the spacer that closes the entry.
\<close>

theorem experience_entries_in_order:
  assumes "build_story fs hp d = Inr st"
  shows "\<exists>jobs groups before after.
           experience d = Some jobs \<and> list_all2 entry_blocks jobs groups \<and>
           st = before @ Paragraph ''Experience'' H2Accent # concat groups @ after \<and>
           length before = 2 + length (summary_blocks d) \<and> length after = 4 \<and>
           map (\<lambda>g. map snd (concat (map paragraphs_of g))) groups
             = map (\<lambda>j. BodyMain
                        # replicate (length (case bullets j of None \<Rightarrow> [] | Some bs \<Rightarrow> bs))
                            BulletItem)
                 jobs"
proof -
  from build_story_Inr [OF assms] obtain hdr jobs groups tbl where
    j: "experience d = Some jobs" and g: "list_all2 entry_blocks jobs groups"
    and st: "st = [hdr, Spacer 1 (6 * mm)] @ summary_blocks d @ [Paragraph ''Experience'' H2Accent]
                @ concat groups @ [Spacer 1 (4 * mm), tbl, Spacer 1 (6 * mm), closing_note]"
    by blast
  let ?b = "[hdr, Spacer 1 (6 * mm)] @ summary_blocks d"
  let ?a = "[Spacer 1 (4 * mm), tbl, Spacer 1 (6 * mm), closing_note]"
  have s: "st = ?b @ Paragraph ''Experience'' H2Accent # concat groups @ ?a" by (simp add: st)
  have lb: "length ?b = 2 + length (summary_blocks d)" by simp
  have la: "length ?a = 4" by simp
  show ?thesis
    apply (rule exI [of _ jobs], rule exI [of _ groups])
    apply (rule exI [of _ ?b], rule exI [of _ ?a])
    apply (intro conjI)
         apply (rule j, rule g, rule s, rule lb, rule la, rule groups_styles [OF g])
    done
qed

theorem experience_entries_in_order_witness:
  "\<exists>st jobs groups before after.
     build_story no_files HEADSHOT_PATH DATA = Inr st \<and>
     experience DATA = Some jobs \<and> list_all2 entry_blocks jobs groups \<and>
     st = before @ Paragraph ''Experience'' H2Accent # concat groups @ after \<and>
     length before = 5 \<and> length after = 4 \<and>
     map length groups = [5, 4, 3, 3, 3, 3] \<and>
     map (\<lambda>g. map snd (concat (map paragraphs_of g))) groups
       = [[BodyMain, BulletItem, BulletItem, BulletItem],
          [BodyMain, BulletItem, BulletItem],
          [BodyMain, BulletItem], [BodyMain, BulletItem], [BodyMain, BulletItem],
          [BodyMain, BulletItem]]"
proof -
  from build_story_total [OF DATA_has_required_keys] obtain st where
    st: "build_story no_files HEADSHOT_PATH DATA = Inr st" by blast
  from experience_entries_in_order [OF st] obtain jobs groups before after where
    j: "experience DATA = Some jobs" and g: "list_all2 entry_blocks jobs groups"
    and s: "st = before @ Paragraph ''Experience'' H2Accent # concat groups @ after"
    and b: "length before = 2 + length (summary_blocks DATA)" and a: "length after = 4"
    and sty: "map (\<lambda>g. map snd (concat (map paragraphs_of g))) groups
             = map (\<lambda>j. BodyMain
                        # replicate (length (case bullets j of None \<Rightarrow> [] | Some bs \<Rightarrow> bs))
                            BulletItem)
                 jobs"
    by - (elim exE conjE, rule that, assumption+)
  have b5: "length before = 5"
    unfolding b summary_blocks_truthy [OF DATA_summary_truthy] by simp
  have jobs: "jobs = the (experience DATA)"
    unfolding j by simp
  have ml: "map length groups = [5, 4, 3, 3, 3, 3]"
    unfolding groups_lengths [OF g] jobs by (rule DATA_bullet_counts)
  have ms: "map (\<lambda>g. map snd (concat (map paragraphs_of g))) groups
       = [[BodyMain, BulletItem, BulletItem, BulletItem],
          [BodyMain, BulletItem, BulletItem],
          [BodyMain, BulletItem], [BodyMain, BulletItem], [BodyMain, BulletItem],
          [BodyMain, BulletItem]]"
    unfolding sty jobs by (rule DATA_bullet_styles)
  show ?thesis
    apply (rule exI [of _ st], rule exI [of _ jobs], rule exI [of _ groups])
    apply (rule exI [of _ before], rule exI [of _ after])
    apply (intro conjI)
           apply (rule st, rule j, rule g, rule s, rule b5, rule a, rule ml, rule ms)
    done
qed

text \<open>
  Claim C3, as stated, fails: a record whose experience list, education list and
  technical, languages and providers strings are all empty still gets the headings of
  these sections.
\<close>

theorem empty_sections_still_emitted:
  "experience bare_cv = Some [] \<and> tech bare_cv = Some [] \<and> education bare_cv = Some [] \<and>
   languages bare_cv = Some [] \<and> providers bare_cv = Some [] \<and>
   build_story no_files None bare_cv = Inr bare_story \<and>
   Paragraph ''Experience'' H2Accent \<in> set bare_story \<and>
   map fst (filter (\<lambda>p. snd p = H2Accent) (concat (map paragraphs_of bare_story)))
     = [''Experience'', ''Technical'', ''Education'', ''Languages'', ''Data Providers'']"
proof -
  have "map fst (filter (\<lambda>p. snd p = H2Accent) (concat (map paragraphs_of bare_story)))
     = [''Experience'', ''Technical'', ''Education'', ''Languages'', ''Data Providers'']"
    by (simp add: bare_story_def bare_two_col_def closing_note_def)
  moreover have "Paragraph ''Experience'' H2Accent \<in> set bare_story"
    by (simp add: bare_story_def)
  ultimately show ?thesis
    by (simp add: build_story_bare) (simp add: bare_cv_def)
qed

text \<open>
  Claim C3, amended. Only the summary is optional. The section headings of a block
  list are Summary (if and only if the summary is present and not empty), then
  Experience, Technical, Education, Languages and Data Providers, whatever their
  values hold; when the summary is empty or missing, neither its heading nor its body
  is in the block list; and a block list is only produced when the keys experience,
  tech, education, languages and providers are there.
\<close>

theorem section_headings_emitted:
  assumes "build_story fs hp d = Inr st"
  shows "map fst (filter (\<lambda>p. snd p = H2Accent) (concat (map paragraphs_of st)))
           = (if truthy (summary d) then [''Summary''] else [])
             @ [''Experience'', ''Technical'', ''Education'', ''Languages'', ''Data Providers'']
         \<and> (\<not> truthy (summary d) \<longrightarrow>
               Paragraph ''Summary'' H2Accent \<notin> set st
               \<and> (\<forall>s. summary d = Some s \<longrightarrow> Paragraph s BodyMain \<notin> set st))
         \<and> experience d \<noteq> None \<and> tech d \<noteq> None \<and> education d \<noteq> None
         \<and> languages d \<noteq> None \<and> providers d \<noteq> None"
proof -
  note hs = section_headings [OF assms]
  have b: "Paragraph ''Summary'' H2Accent \<notin> set st" if f: "\<not> truthy (summary d)"
  proof
    assume "Paragraph ''Summary'' H2Accent \<in> set st"
    then have "(''Summary'', H2Accent) \<in> set (concat (map paragraphs_of st))"
      by (force simp: image_iff)
    then show False unfolding h2_member hs using f by simp
  qed
  have c: "\<forall>s. summary d = Some s \<longrightarrow> Paragraph s BodyMain \<notin> set st" if "\<not> truthy (summary d)"
    using falsy_body_absent [OF assms that] by blast
  from build_story_Inr [OF assms] obtain tbl where
    e: "experience d \<noteq> None" and t: "two_col d = Inr tbl" by auto
  from two_col_Inr [OF t] have
    "tech d \<noteq> None \<and> education d \<noteq> None \<and> languages d \<noteq> None \<and> providers d \<noteq> None" by auto
  with hs b c e show ?thesis by blast
qed

theorem section_headings_emitted_witness:
  "build_story no_files None bare_cv = Inr bare_story \<and>
   \<not> truthy (summary bare_cv) \<and>
   map fst (filter (\<lambda>p. snd p = H2Accent) (concat (map paragraphs_of bare_story)))
     = [''Experience'', ''Technical'', ''Education'', ''Languages'', ''Data Providers''] \<and>
   Paragraph ''Summary'' H2Accent \<notin> set bare_story \<and>
   experience bare_cv \<noteq> None \<and> tech bare_cv \<noteq> None"
proof -
  have f: "\<not> truthy (summary bare_cv)" by (simp add: truthy_def bare_cv_def)
  from section_headings_emitted [OF build_story_bare] f build_story_bare
  show ?thesis by simp
qed

text \<open>
  Claim C4. Whenever the assembler produces a block list, its first block is the header
  row, and the contact paragraph in the left stack of that row is the join, with the
  separator of a middle dot between two spaces, of the entries of the fields followed
  by the entries of the links: one entry for each of email, phone and location that is
  present and not empty, in this order, then one link entry for each item of the links
  mapping whose URL is not empty, in the mapping's insertion order.
\<close>

theorem contact_line_entries:
  assumes "build_story fs hp d = Inr st"
  shows "(\<exists>n t rt rest.
            st = Table [[KeepInFrame 0 0
                           [Paragraph n NameLine, Paragraph t SubLine, Spacer 1 (2 * mm),
                            Paragraph (str_join ('' '' @ middot @ '' '')
                                         (field_entries d @ link_entries d)) BodyMain]
                           LEFT,
                         rt]]
                   [None, Some (30 * mm)] header_cmds # rest)
         \<and> length (field_entries d) = length (filter truthy [email d, phone d, location d])
         \<and> length (link_entries d)
             = length (filter (\<lambda>(label, url). url \<noteq> [])
                         (case links d of None \<Rightarrow> [] | Some items \<Rightarrow> items))"
proof -
  from build_story_Inr [OF assms] obtain hdr jobs groups tbl where
    h: "header_row fs hp d = Inr hdr"
    and s: "st = [hdr, Spacer 1 (6 * mm)] @ summary_blocks d @ [Paragraph ''Experience'' H2Accent]
                @ concat groups @ [Spacer 1 (4 * mm), tbl, Spacer 1 (6 * mm), closing_note]"
    by blast
  from header_row_Inr [OF h] s have
    "\<exists>n t rt rest.
            st = Table [[KeepInFrame 0 0
                           [Paragraph n NameLine, Paragraph t SubLine, Spacer 1 (2 * mm),
                            Paragraph (str_join ('' '' @ middot @ '' '')
                                         (field_entries d @ link_entries d)) BodyMain]
                           LEFT,
                         rt]]
                   [None, Some (30 * mm)] header_cmds # rest"
    by (auto simp: contact_parts_eq)
  moreover have "length (field_entries d) = length (filter truthy [email d, phone d, location d])"
    by (simp add: field_entries_def)
  moreover have "length (link_entries d)
             = length (filter (\<lambda>(label, url). url \<noteq> [])
                         (case links d of None \<Rightarrow> [] | Some items \<Rightarrow> items))"
    by (simp add: link_entries_def)
  ultimately show ?thesis by blast
qed

theorem contact_line_entries_witness:
  "\<exists>st. build_story no_files HEADSHOT_PATH DATA = Inr st \<and>
     (\<exists>n t rt rest.
        st = Table [[KeepInFrame 0 0
                       [Paragraph n NameLine, Paragraph t SubLine, Spacer 1 (2 * mm),
                        Paragraph (str_join ('' '' @ middot @ '' '')
                           [link_span ''mailto:apschram@gmail.com'' ''apschram@gmail.com'',
                            ''+31 6 52 36 73 57'', ''Amsterdam, NL'',
                            link_span PDF_URL ''PDF'', link_span LINKEDIN_URL ''LinkedIn'',
                            link_span GITHUB_URL ''GitHub'']) BodyMain]
                       LEFT,
                     rt]]
               [None, Some (30 * mm)] header_cmds # rest)"
proof -
  from build_story_total [OF DATA_has_required_keys] obtain st where
    st: "build_story no_files HEADSHOT_PATH DATA = Inr st" by blast
  from contact_line_entries [OF st] show ?thesis
    unfolding DATA_entries using st by blast
qed

text \<open>
  Claim C5. If the summary is empty (or missing), the block list has no Summary
  heading, neither at the top level nor nested in a table, and no summary body: the
  heading of the experience section follows the header row and its spacer at once.
\<close>

theorem summary_absent_when_empty:
  assumes "build_story fs hp d = Inr st" and "\<not> truthy (summary d)"
  shows "(''Summary'', H2Accent) \<notin> set (concat (map paragraphs_of st))
         \<and> Paragraph ''Summary'' H2Accent \<notin> set st
         \<and> (\<forall>s. summary d = Some s \<longrightarrow> Paragraph s BodyMain \<notin> set st)
         \<and> (\<exists>hdr rest. st = hdr # Spacer 1 (6 * mm) # Paragraph ''Experience'' H2Accent # rest)"
proof -
  have a: "(''Summary'', H2Accent) \<notin> set (concat (map paragraphs_of st))"
    unfolding h2_member section_headings [OF assms(1)] using assms(2) by simp
  have b: "Paragraph ''Summary'' H2Accent \<notin> set st"
  proof
    assume "Paragraph ''Summary'' H2Accent \<in> set st"
    then have "(''Summary'', H2Accent) \<in> set (concat (map paragraphs_of st))"
      by (force simp: image_iff)
    with a show False by contradiction
  qed
  have c: "\<forall>s. summary d = Some s \<longrightarrow> Paragraph s BodyMain \<notin> set st"
    using falsy_body_absent [OF assms] by blast
  from build_story_Inr [OF assms(1)] have
    "\<exists>hdr rest. st = hdr # Spacer 1 (6 * mm) # Paragraph ''Experience'' H2Accent # rest"
    by (auto simp: summary_blocks_falsy [OF assms(2)])
  with a b c show ?thesis by blast
qed

theorem summary_absent_when_empty_witness:
  "\<not> truthy (summary (DATA\<lparr>summary := Some []\<rparr>)) \<and>
   (\<exists>st. build_story no_files HEADSHOT_PATH (DATA\<lparr>summary := Some []\<rparr>) = Inr st
      \<and> (''Summary'', H2Accent) \<notin> set (concat (map paragraphs_of st))
      \<and> Paragraph ''Summary'' H2Accent \<notin> set st
      \<and> Paragraph [] BodyMain \<notin> set st
      \<and> (\<exists>hdr rest. st = hdr # Spacer 1 (6 * mm) # Paragraph ''Experience'' H2Accent # rest))"
proof -
  have f: "\<not> truthy (summary (DATA\<lparr>summary := Some []\<rparr>))" by (simp add: truthy_def)
  from build_story_total [OF no_summary_required] obtain st where
    st: "build_story no_files HEADSHOT_PATH (DATA\<lparr>summary := Some []\<rparr>) = Inr st" by blast
  from summary_absent_when_empty [OF st f] f st show ?thesis by auto
qed

text \<open>
  Claim C6. The right-hand cell of the header row is a table of one column. When no
  headshot path is configured, or the path does not exist, it has one row, holding the
  QR image, and so one image. When a headshot path is configured and exists, it has
  three rows: the QR image, a spacer, the headshot; so two images, the QR image above
  the headshot.
\<close>

theorem header_image_stack:
  assumes "build_story fs hp d = Inr st"
  shows "\<exists>left rest rows.
           st = Table [[left, Table rows [Some (30 * mm)] right_cmds]]
                  [None, Some (30 * mm)] header_cmds # rest
           \<and> rows = (if headshot_available fs hp
                     then [[Image_flowable (make_qr LANDING_URL 6) (28 * mm) (28 * mm)],
                           [Spacer 1 (2 * mm)],
                           [Image_flowable (ImageFile (the hp)) (28 * mm) (28 * mm)]]
                     else [[Image_flowable (make_qr LANDING_URL 6) (28 * mm) (28 * mm)]])
           \<and> images_of (Table rows [Some (30 * mm)] right_cmds)
               = (if headshot_available fs hp
                  then [make_qr LANDING_URL 6, ImageFile (the hp)]
                  else [make_qr LANDING_URL 6])"
proof -
  from build_story_Inr [OF assms] obtain hdr rest where
    h: "header_row fs hp d = Inr hdr" and st: "st = hdr # rest" by auto
  from header_row_Inr [OF h] obtain left where
    hdr: "hdr = Table [[left, Table (right_cells fs hp) [Some (30 * mm)] right_cmds]]
                  [None, Some (30 * mm)] header_cmds"
    by (auto simp: right_tbl_eq)
  have "images_of (Table (right_cells fs hp) [Some (30 * mm)] right_cmds)
               = (if headshot_available fs hp
                  then [make_qr LANDING_URL 6, ImageFile (the hp)]
                  else [make_qr LANDING_URL 6])"
    by (simp add: right_cells_eq)
  with st hdr right_cells_eq [of fs hp] show ?thesis by blast
qed

theorem header_image_stack_witness:
  "\<not> headshot_available no_files HEADSHOT_PATH \<and>
   headshot_available headshot_file (Some ''AS.png'') \<and>
   (\<exists>st left rest rows.
      build_story no_files HEADSHOT_PATH DATA = Inr st \<and>
      st = Table [[left, Table rows [Some (30 * mm)] right_cmds]]
             [None, Some (30 * mm)] header_cmds # rest \<and>
      images_of (Table rows [Some (30 * mm)] right_cmds) = [make_qr LANDING_URL 6]) \<and>
   (\<exists>st left rest rows.
      build_story headshot_file (Some ''AS.png'') DATA = Inr st \<and>
      st = Table [[left, Table rows [Some (30 * mm)] right_cmds]]
             [None, Some (30 * mm)] header_cmds # rest \<and>
      images_of (Table rows [Some (30 * mm)] right_cmds)
        = [make_qr LANDING_URL 6, ImageFile ''AS.png''])"
proof -
  have n: "\<not> headshot_available no_files HEADSHOT_PATH"
    by (simp add: headshot_available_def HEADSHOT_PATH_def)
  have y: "headshot_available headshot_file (Some ''AS.png'')"
    by (simp add: headshot_available_def os_path_exists_def headshot_file_def)
  from build_story_total [OF DATA_has_required_keys] obtain st1 where
    st1: "build_story no_files HEADSHOT_PATH DATA = Inr st1" by blast
  from build_story_total [OF DATA_has_required_keys] obtain st2 where
    st2: "build_story headshot_file (Some ''AS.png'') DATA = Inr st2" by blast
  from header_image_stack [OF st1] n st1 have
    "\<exists>st left rest rows.
      build_story no_files HEADSHOT_PATH DATA = Inr st \<and>
      st = Table [[left, Table rows [Some (30 * mm)] right_cmds]]
             [None, Some (30 * mm)] header_cmds # rest \<and>
      images_of (Table rows [Some (30 * mm)] right_cmds) = [make_qr LANDING_URL 6]"
    by auto
  moreover from header_image_stack [OF st2] y st2 have
    "\<exists>st left rest rows.
      build_story headshot_file (Some ''AS.png'') DATA = Inr st \<and>
      st = Table [[left, Table rows [Some (30 * mm)] right_cmds]]
             [None, Some (30 * mm)] header_cmds # rest \<and>
      images_of (Table rows [Some (30 * mm)] right_cmds)
        = [make_qr LANDING_URL 6, ImageFile ''AS.png'']"
    by auto
  ultimately show ?thesis using n y by blast
qed

text \<open>
  Claim C7. The data handed to the QR encoder for the image of the header is the
  landing-page URL; it is the only QR image of the document. (That decoding the image
  gives the data back is the QR library's contract, not this program's.)
\<close>

theorem qr_encodes_landing_url:
  assumes "build_story fs hp d = Inr st"
  shows "concat (map qr_payload (concat (map images_of st))) = [LANDING_URL]
         \<and> (\<exists>hdr rest more.
               st = hdr # rest \<and> images_of hdr = make_qr LANDING_URL 6 # more
               \<and> qr_payload (make_qr LANDING_URL 6) = [LANDING_URL])"
proof -
  from build_story_Inr [OF assms] obtain hdr jobs groups tbl where
    h: "header_row fs hp d = Inr hdr" and t: "two_col d = Inr tbl"
    and g: "list_all2 entry_blocks jobs groups"
    and st: "st = [hdr, Spacer 1 (6 * mm)] @ summary_blocks d @ [Paragraph ''Experience'' H2Accent]
                @ concat groups @ [Spacer 1 (4 * mm), tbl, Spacer 1 (6 * mm), closing_note]"
    by blast
  from header_row_Inr [OF h] have
    ih: "images_of hdr = concat (concat (map (map images_of) (right_cells fs hp)))"
    by (auto simp: right_tbl_eq)
  from two_col_Inr [OF t] have it: "images_of tbl = []"
    by (auto simp: o_def)
  have all: "concat (map images_of st) = images_of hdr"
    by (simp add: st images_of_summary_blocks images_of_groups [OF g] it closing_note_def)
  have a: "concat (map qr_payload (concat (map images_of st))) = [LANDING_URL]"
    by (simp only: all ih qr_payloads_right_cells)
  have "\<exists>more. images_of hdr = make_qr LANDING_URL 6 # more"
    by (simp add: ih right_cells_eq)
  moreover have "qr_payload (make_qr LANDING_URL 6) = [LANDING_URL]"
    by (simp add: make_qr_def)
  moreover have "\<exists>rest. st = hdr # rest" by (simp add: st)
  ultimately show ?thesis using a by blast
qed

theorem qr_encodes_landing_url_witness:
  "\<exists>st. build_story no_files HEADSHOT_PATH DATA = Inr st \<and>
     concat (map qr_payload (concat (map images_of st)))
       = [''https://apschram.github.io/curriculum-vitae/'']"
proof -
  from build_story_total [OF DATA_has_required_keys] obtain st where
    st: "build_story no_files HEADSHOT_PATH DATA = Inr st" by blast
  from qr_encodes_landing_url [OF st] st show ?thesis
    by (auto simp: LANDING_URL_def)
qed

text \<open>
  Claim C8, as stated, fails: the left cell of the two-column row does not have a
  zero gap. The right padding of 12 points is set on every cell, so the left cell too
  is followed by a gap.
\<close>

theorem left_cell_has_right_gap:
  "two_col bare_cv = Inr bare_two_col \<and>
   padding_of LeftSide bare_two_col (0, 0) = Some 0 \<and>
   padding_of RightSide bare_two_col (0, 0) = Some 12 \<and>
   padding_of RightSide bare_two_col (1, 0) = Some 12"
proof -
  have "padding_of LeftSide bare_two_col (0, 0) = Some 0"
    by (simp add: bare_two_col_def two_col_cmds_def covers_def norm_index_def)
  moreover have "padding_of RightSide bare_two_col (0, 0) = Some 12"
    by (simp add: bare_two_col_def two_col_cmds_def covers_def norm_index_def)
  moreover have "padding_of RightSide bare_two_col (1, 0) = Some 12"
    by (simp add: bare_two_col_def two_col_cmds_def covers_def norm_index_def)
  ultimately show ?thesis using two_col_bare by (intro conjI)
qed

text \<open>
  Claim C8, amended. The two-column block is a table of one row and two cells: the
  technical and education stack left, the languages and providers stack right, each
  in a \<open>KeepInFrame\<close> of its own. Both cells have the same paddings: zero left, top
  and bottom, and 12 points right.
\<close>

theorem two_col_layout:
  assumes "build_story fs hp d = Inr st"
  shows "\<exists>before left_col right_col tbl.
           st = before @ [Spacer 1 (4 * mm), tbl, Spacer 1 (6 * mm), closing_note]
           \<and> tbl = Table [[KeepInFrame 0 0 left_col LEFT, KeepInFrame 0 0 right_col LEFT]]
                     [None, None] two_col_cmds
           \<and> left_col = [Paragraph ''Technical'' H2Accent, Paragraph (the (tech d)) BodyMain,
                         Spacer 1 (2 * mm), Paragraph ''Education'' H2Accent]
                        @ map (\<lambda>item. Paragraph item BodyMain) (the (education d))
           \<and> right_col = [Paragraph ''Languages'' H2Accent, Paragraph (the (languages d)) BodyMain,
                          Spacer 1 (2 * mm), Paragraph ''Data Providers'' H2Accent,
                          Paragraph (the (providers d)) BodyMain]
           \<and> map (\<lambda>s. padding_of s tbl (0, 0)) [LeftSide, RightSide, TopSide, BottomSide]
               = [Some 0, Some 12, Some 0, Some 0]
           \<and> map (\<lambda>s. padding_of s tbl (1, 0)) [LeftSide, RightSide, TopSide, BottomSide]
               = [Some 0, Some 12, Some 0, Some 0]"
proof -
  from build_story_Inr [OF assms] obtain hdr groups tbl where
    t: "two_col d = Inr tbl"
    and st: "st = [hdr, Spacer 1 (6 * mm)] @ summary_blocks d @ [Paragraph ''Experience'' H2Accent]
                @ concat groups @ [Spacer 1 (4 * mm), tbl, Spacer 1 (6 * mm), closing_note]"
    by blast
  let ?before = "[hdr, Spacer 1 (6 * mm)] @ summary_blocks d @ [Paragraph ''Experience'' H2Accent]
                @ concat groups"
  let ?l = "[Paragraph ''Technical'' H2Accent, Paragraph (the (tech d)) BodyMain,
             Spacer 1 (2 * mm), Paragraph ''Education'' H2Accent]
            @ map (\<lambda>item. Paragraph item BodyMain) (the (education d))"
  let ?r = "[Paragraph ''Languages'' H2Accent, Paragraph (the (languages d)) BodyMain,
             Spacer 1 (2 * mm), Paragraph ''Data Providers'' H2Accent,
             Paragraph (the (providers d)) BodyMain]"
  have s: "st = ?before @ [Spacer 1 (4 * mm), tbl, Spacer 1 (6 * mm), closing_note]"
    by (simp add: st)
  from two_col_Inr [OF t] have
    tbl: "tbl = Table [[KeepInFrame 0 0 ?l LEFT, KeepInFrame 0 0 ?r LEFT]] [None, None] two_col_cmds"
    by auto
  have p0: "map (\<lambda>s. padding_of s tbl (0, 0)) [LeftSide, RightSide, TopSide, BottomSide]
               = [Some 0, Some 12, Some 0, Some 0]"
    unfolding tbl padding_of.simps by (rule two_col_cmds_padding)
  have p1: "map (\<lambda>s. padding_of s tbl (1, 0)) [LeftSide, RightSide, TopSide, BottomSide]
               = [Some 0, Some 12, Some 0, Some 0]"
    unfolding tbl padding_of.simps by (rule two_col_cmds_padding)
  show ?thesis
    apply (rule exI [of _ ?before], rule exI [of _ ?l], rule exI [of _ ?r], rule exI [of _ tbl])
    apply (intro conjI)
         apply (rule s, rule tbl, rule refl, rule refl, rule p0, rule p1)
    done
qed

theorem two_col_layout_witness:
  "\<exists>st before left_col right_col tbl.
     build_story no_files HEADSHOT_PATH DATA = Inr st
     \<and> st = before @ [Spacer 1 (4 * mm), tbl, Spacer 1 (6 * mm), closing_note]
     \<and> tbl = Table [[KeepInFrame 0 0 left_col LEFT, KeepInFrame 0 0 right_col LEFT]]
               [None, None] two_col_cmds
     \<and> length left_col = 6 \<and> length right_col = 5
     \<and> map (\<lambda>s. padding_of s tbl (0, 0)) [LeftSide, RightSide, TopSide, BottomSide]
         = [Some 0, Some 12, Some 0, Some 0]
     \<and> map (\<lambda>s. padding_of s tbl (1, 0)) [LeftSide, RightSide, TopSide, BottomSide]
         = [Some 0, Some 12, Some 0, Some 0]"
proof -
  from build_story_total [OF DATA_has_required_keys] obtain st where
    st: "build_story no_files HEADSHOT_PATH DATA = Inr st" by blast
  have e: "length (the (education DATA)) = 2" by (simp add: DATA_def)
  from two_col_layout [OF st] obtain before left_col right_col tbl where
    s: "st = before @ [Spacer 1 (4 * mm), tbl, Spacer 1 (6 * mm), closing_note]"
    and t: "tbl = Table [[KeepInFrame 0 0 left_col LEFT, KeepInFrame 0 0 right_col LEFT]]
               [None, None] two_col_cmds"
    and l: "left_col = [Paragraph ''Technical'' H2Accent, Paragraph (the (tech DATA)) BodyMain,
                         Spacer 1 (2 * mm), Paragraph ''Education'' H2Accent]
                        @ map (\<lambda>item. Paragraph item BodyMain) (the (education DATA))"
    and r: "right_col = [Paragraph ''Languages'' H2Accent, Paragraph (the (languages DATA)) BodyMain,
                          Spacer 1 (2 * mm), Paragraph ''Data Providers'' H2Accent,
                          Paragraph (the (providers DATA)) BodyMain]"
    and p0: "map (\<lambda>s. padding_of s tbl (0, 0)) [LeftSide, RightSide, TopSide, BottomSide]
               = [Some 0, Some 12, Some 0, Some 0]"
    and p1: "map (\<lambda>s. padding_of s tbl (1, 0)) [LeftSide, RightSide, TopSide, BottomSide]
               = [Some 0, Some 12, Some 0, Some 0]"
    by - (elim exE conjE, rule that, assumption+)
  have ll: "length left_col = 6" unfolding l by (simp add: e)
  have lr: "length right_col = 5" unfolding r by simp
  show ?thesis
    apply (rule exI [of _ st], rule exI [of _ before], rule exI [of _ left_col])
    apply (rule exI [of _ right_col], rule exI [of _ tbl])
    apply (intro conjI)
          apply (rule st, rule s, rule t, rule ll, rule lr, rule p0, rule p1)
    done
qed

text \<open>
  Claim C9. A run of \<open>build_pdf\<close> that returns leaves the content record as it was:
  it changes nothing of the state but the file it writes.
\<close>

theorem content_unchanged:
  assumes "build_pdf path w = Inr w'"
  shows "Data w' = Data w \<and> clock w' = clock w \<and>
         (\<forall>p. p \<noteq> path \<longrightarrow> files w' p = files w p \<and> written w' p = written w p) \<and>
         (\<exists>doc. build_doc path w = Inr doc \<and> written w' path = Some doc)"
  using build_pdf_Inr [OF assms] by auto

theorem content_unchanged_witness:
  "\<exists>w'. build_pdf OUTPUT_PDF world_nov = Inr w' \<and> Data w' = DATA \<and>
        clock w' = clock world_nov \<and> written w' OUTPUT_PDF \<noteq> None"
proof -
  have r: "has_required_keys (Data world_nov)"
    by (simp add: world_nov_def DATA_has_required_keys)
  from build_doc_total [OF r] obtain doc where doc: "build_doc OUTPUT_PDF world_nov = Inr doc"
    by blast
  then obtain w' where w': "build_pdf OUTPUT_PDF world_nov = Inr w'"
    by (simp add: build_pdf_def and_then_def)
  have "Data world_nov = DATA" by (simp add: world_nov_def)
  with content_unchanged [OF w'] w' show ?thesis by auto
qed

text \<open>
  Claim C10. When the email is present and not empty, its entry of the contact line
  (the first one) is a link span that shows the address and points at the \<open>mailto:\<close>
  URL of the address, so it is not the plain address. The entries of phone and
  location are the plain field values; they stand after the entries of the fields
  before them.
\<close>

theorem contact_entry_markup:
  "(\<forall>e. email d = Some e \<and> e \<noteq> [] \<longrightarrow>
        contact_parts d ! 0 = link_span (''mailto:'' @ e) e \<and> contact_parts d ! 0 \<noteq> e)
   \<and> (\<forall>p. phone d = Some p \<and> p \<noteq> [] \<longrightarrow>
        contact_parts d ! length (filter truthy [email d]) = p)
   \<and> (\<forall>l. location d = Some l \<and> l \<noteq> [] \<longrightarrow>
        contact_parts d ! length (filter truthy [email d, phone d]) = l)"
proof -
  have neq: "link_span h e \<noteq> e" for h e
  proof
    assume "link_span h e = e"
    then have "length (link_span h e) = length e" by simp
    then show False by (simp add: link_span_def link_open_def)
  qed
  show ?thesis
    by (auto simp: contact_parts_eq field_entries_def truthy_def nth_append neq)
qed

theorem contact_entry_markup_witness:
  "contact_parts DATA ! 0 = link_span ''mailto:apschram@gmail.com'' ''apschram@gmail.com''
   \<and> contact_parts DATA ! 1 = ''+31 6 52 36 73 57''
   \<and> contact_parts DATA ! 2 = ''Amsterdam, NL''"
proof -
  have f: "email DATA = Some ''apschram@gmail.com''" "phone DATA = Some ''+31 6 52 36 73 57''"
    "location DATA = Some ''Amsterdam, NL''"
    by (simp_all add: DATA_def)
  from contact_entry_markup [of DATA] show ?thesis
    by (simp add: f truthy_def numeral_2_eq_2)
qed

end
